theory Spec2Isabelle
  imports Complex_Main "HOL-Library.Sublist" "HOL-Library.Word"
begin

unbundle bit_operations_syntax

section \<open>Python values\<close>

text \<open>
  The scripts handle decoded JSON documents (chat transcripts, provider responses).
  A JSON object is kept as the list of its items and read with \<open>map_of\<close>. Python strings
  are character lists. Python numbers that measure time are exact rationals: the source
  adds a float interval to an integer counter, and the model does the same sum without
  rounding.
\<close>

datatype json =
    JNull
  | JBool bool
  | JNum rat
  | JStr string
  | JList "json list"
  | JDict "(string \<times> json) list"

type_synonym dict = "(string \<times> json) list"

type_synonym byte = "8 word"

text \<open>The exceptions that the modelled code can meet.\<close>

datatype py_exception =
    ClientError string
  | AttributeError
  | ValueError
  | BinasciiError

text \<open>Python truthiness, as used by \<open>if not output\<close> and by \<open>x or y\<close>.\<close>

fun truthy :: "json \<Rightarrow> bool" where
  "truthy JNull = False"
| "truthy (JBool b) = b"
| "truthy (JNum n) = (n \<noteq> 0)"
| "truthy (JStr s) = (s \<noteq> [])"
| "truthy (JList xs) = (xs \<noteq> [])"
| "truthy (JDict kvs) = (kvs \<noteq> [])"

text \<open>\<open>x.get(k)\<close> on a decoded JSON value: only a dict has \<open>get\<close>.\<close>

fun py_get :: "json \<Rightarrow> string \<Rightarrow> py_exception + json option" where
  "py_get (JDict d) k = Inr (map_of d k)"
| "py_get _ k = Inl AttributeError"

section \<open>Images of a chat transcript (muse\_edit\_image\_tool.py)\<close>

text \<open>\<open>url.split(",", 1)[1] if "," in url else url\<close>\<close>

definition after_comma :: "string \<Rightarrow> string" where
  "after_comma url =
     (if CHR '','' \<in> set url then tl (dropWhile (\<lambda>c. c \<noteq> CHR '','') url) else url)"

text \<open>
  The body of the loop over the items of a message: what one item appends to
  \<open>base64_images\<close>, and whether the item reaches the \<open>len(base64_images) >= max_images\<close>
  test, which sits inside the \<open>image_url\<close> branch.
\<close>

definition is_image_item :: "json \<Rightarrow> bool" where
  "is_image_item item =
     (case item of JDict d \<Rightarrow> map_of d ''type'' = Some (JStr ''image_url'') | _ \<Rightarrow> False)"

definition item_url :: "json \<Rightarrow> json option" where
  "item_url item =
     (case item of
        JDict d \<Rightarrow>
          (case (case map_of d ''image_url'' of None \<Rightarrow> JDict [] | Some v \<Rightarrow> v) of
             JDict image_url_obj \<Rightarrow> map_of image_url_obj ''url''
           | _ \<Rightarrow> None)
      | _ \<Rightarrow> None)"

definition item_images :: "json \<Rightarrow> string list" where
  "item_images item =
     (case item_url item of
        Some (JStr url) \<Rightarrow>
          (if url \<noteq> [] then
             (if prefix ''data:image'' url then [after_comma url]
              else if prefix ''http'' url then [url]
              else [])
           else [])
      | _ \<Rightarrow> [])"

fun scan_items :: "json list \<Rightarrow> int \<Rightarrow> string list \<Rightarrow> string list" where
  "scan_items [] max_images base64_images = base64_images"
| "scan_items (item # items) max_images base64_images =
     (if is_image_item item then
        (let base64_images' = base64_images @ item_images item
         in if int (length base64_images') \<ge> max_images then base64_images'
            else scan_items items max_images base64_images')
      else scan_items items max_images base64_images)"

definition is_user :: "dict \<Rightarrow> bool" where
  "is_user message = (map_of message ''role'' = Some (JStr ''user''))"

definition last_user_message :: "dict list \<Rightarrow> dict option" where
  "last_user_message messages = find is_user (rev messages)"

definition extract_images_from_messages :: "dict list \<Rightarrow> int \<Rightarrow> string list" where
  "extract_images_from_messages messages max_images =
     (case last_user_message messages of
        None \<Rightarrow> []
      | Some message \<Rightarrow>
          (if message = [] then []
           else (case map_of message ''content'' of
                   Some (JList content) \<Rightarrow> scan_items content max_images []
                 | _ \<Rightarrow> [])))"


section \<open>Media type of an inline image (muse\_edit\_image\_tool.py)\<close>

text \<open>
  \<open>base64.b64decode\<close> belongs to the Python library. \<open>detect_image_mime\<close> takes the
  decoder as a parameter \<open>dec\<close>, so that what is proved about it holds for whatever the
  library does. A model of the library's lenient decoder follows for concrete inputs: it
  skips characters outside the alphabet, stops at a completed pad sequence and fails when
  the data characters do not fill their last group of four.
\<close>

definition detect_image_mime :: "(string \<Rightarrow> py_exception + byte list) \<Rightarrow> string \<Rightarrow> string" where
  "detect_image_mime dec base64_data =
     (case dec (take 32 base64_data) of
        Inl e \<Rightarrow> ''image/png''
      | Inr header \<Rightarrow>
          (if prefix [0x89, 0x50, 0x4E, 0x47] header then ''image/png''
           else if prefix [0xFF, 0xD8, 0xFF] header then ''image/jpeg''
           else if prefix [0x47, 0x49, 0x46] header then ''image/gif''
           else if prefix [0x52, 0x49, 0x46, 0x46] header
                   \<and> sublist [0x57, 0x45, 0x42, 0x50] header then ''image/webp''
           else ''image/png''))"

definition b64_index :: "char \<Rightarrow> nat option" where
  "b64_index c =
     (let n = (of_char c :: nat) in
      if 65 \<le> n \<and> n \<le> 90 then Some (n - 65)
      else if 97 \<le> n \<and> n \<le> 122 then Some (n - 71)
      else if 48 \<le> n \<and> n \<le> 57 then Some (n + 4)
      else if n = 43 then Some 62
      else if n = 47 then Some 63
      else None)"

fun a2b_base64 :: "string \<Rightarrow> nat \<Rightarrow> byte \<Rightarrow> nat \<Rightarrow> byte list \<Rightarrow> py_exception + byte list" where
  "a2b_base64 [] quad_pos leftchar pads out =
     (if quad_pos \<noteq> 0 then Inl BinasciiError else Inr out)"
| "a2b_base64 (c # cs) quad_pos leftchar pads out =
     (if c = CHR ''='' then
        (if quad_pos \<ge> 2 \<and> quad_pos + (pads + 1) \<ge> 4 then Inr out
         else a2b_base64 cs quad_pos leftchar (if quad_pos \<ge> 2 then pads + 1 else pads) out)
      else
        (case b64_index c of
           None \<Rightarrow> a2b_base64 cs quad_pos leftchar pads out
         | Some v \<Rightarrow>
             (let this_ch = (of_nat v :: byte) in
              if quad_pos = 0 then a2b_base64 cs 1 this_ch 0 out
              else if quad_pos = 1 then
                a2b_base64 cs 2 (this_ch AND 0x0F) 0
                  (out @ [push_bit 2 leftchar OR drop_bit 4 this_ch])
              else if quad_pos = 2 then
                a2b_base64 cs 3 (this_ch AND 0x03) 0
                  (out @ [push_bit 4 leftchar OR drop_bit 2 this_ch])
              else a2b_base64 cs 0 0 0 (out @ [push_bit 6 leftchar OR this_ch]))))"

definition b64decode :: "string \<Rightarrow> py_exception + byte list" where
  "b64decode s =
     (if list_ex (\<lambda>c. (of_char c :: nat) \<ge> 128) s then Inl ValueError
      else a2b_base64 s 0 0 0 [])"

text \<open>
  The slot value that \<open>edit_image\<close> submits for one extracted image: a remote URL is
  passed through, anything else is wrapped in a data URI with the detected media type.
\<close>

definition image_slot :: "(string \<Rightarrow> py_exception + byte list) \<Rightarrow> string \<Rightarrow> string" where
  "image_slot dec img =
     (if prefix ''http'' img then img
      else ''data:'' @ detect_image_mime dec img @ '';base64,'' @ img)"

section \<open>The prediction client (Tools.edit\_image, muse\_edit\_image\_tool.py)\<close>

text \<open>
  \<open>edit_image\<close> talks to the provider through one creation call and a series of status
  checks. The model takes the provider's answers as arguments (the answer to the creation
  call, and the answer to the \<open>k\<close>-th status check for every \<open>k\<close>) and returns, next to
  the outcome, the trace of what the function did to the outside world, in order.
  An answer is either an \<open>aiohttp.ClientError\<close> raised by the call, with its message, or a
  response with its status code, its text and its decoded JSON body.

  Of the valves, the model keeps the three that the control flow reads. Of the request
  body it keeps the image slots; the prompt and the fixed options do not reach any
  decision. Log lines are left out.
\<close>

record valves =
  replicate_api_token :: string
  max_wait_time :: int
  polling_interval :: rat

datatype reply =
    Raises string
  | Response nat string json

datatype status_event =
    Generating nat
  | Processing rat
  | Complete
  | Status_network_error
  | Status_error

datatype io =
    Emit status_event
  | Post "(string \<times> string) list"
  | Sleep rat
  | Get json

text \<open>
  The function returns a message string. The outcomes are its \<open>return\<close> statements, each
  with the values that the string quotes:
  \<^item> \<open>Token_missing\<close>, \<open>No_messages\<close>, \<open>No_images\<close>: the three checks before the request
    (lines 174 to 183);
  \<^item> \<open>Api_error status text\<close>: \<open>API error ({resp.status}): {error_text[:200]}\<close>;
  \<^item> \<open>Timeout max_wait_time prediction_id\<close>: \<open>Timeout after {max_wait_time}s. ID: {prediction_id}\<close>;
  \<^item> \<open>Generation_failed error\<close>: \<open>Generation failed: {error}\<close>;
  \<^item> \<open>Generation_canceled\<close>: \<open>Generation canceled.\<close>;
  \<^item> \<open>No_output result\<close>: \<open>No output. Response: ...\<close>;
  \<^item> \<open>Image_ready image_url\<close>: the answer that shows the image. The model ends where
    \<open>image_url\<close> is chosen (line 288); storing a copy in the chat host and rendering the
    HTML are not part of it;
  \<^item> \<open>Network_error e\<close> and \<open>Unexpected_error e\<close>: \<open>Network error: {e}\<close> and \<open>Error: {e}\<close>
    of the two \<open>except\<close> clauses.
\<close>

datatype outcome =
    Token_missing
  | No_messages
  | No_images
  | Api_error nat string
  | Timeout int json
  | Generation_failed json
  | Generation_canceled
  | No_output dict
  | Image_ready json
  | Network_error string
  | Unexpected_error py_exception

text \<open>\<open>d.get(k, default)\<close> and \<open>d.get(k)\<close>; Python's \<open>None\<close> is JSON's null.\<close>

definition dget_default :: "dict \<Rightarrow> string \<Rightarrow> json \<Rightarrow> json" where
  "dget_default d k dflt = (case map_of d k of None \<Rightarrow> dflt | Some v \<Rightarrow> v)"

definition dget :: "dict \<Rightarrow> string \<Rightarrow> json" where
  "dget d k = dget_default d k JNull"

text \<open>\<open>status not in ("succeeded", "failed", "canceled")\<close>\<close>

definition terminal :: "json \<Rightarrow> bool" where
  "terminal st = (st = JStr ''succeeded'' \<or> st = JStr ''failed'' \<or> st = JStr ''canceled'')"

subsection \<open>Submission\<close>

record job_handle =
  prediction_id :: json
  prediction_url :: json

datatype abort =
    Return outcome
  | Raise py_exception

text \<open>
  Lines 231 to 247: the creation call and the reading of its answer. \<open>str\<close> is Python's
  own conversion of a value to text inside an f-string, taken as a parameter.
\<close>

definition submit :: "(json \<Rightarrow> string) \<Rightarrow> reply \<Rightarrow> abort + (job_handle \<times> dict)" where
  "submit str create =
     (case create of
        Raises msg \<Rightarrow> Inl (Raise (ClientError msg))
      | Response code text body \<Rightarrow>
          (if code \<noteq> 200 \<and> code \<noteq> 201 then Inl (Return (Api_error code (take 200 text)))
           else
             (case body of
                JDict result \<Rightarrow>
                  (case py_get (dget_default result ''urls'' (JDict [])) ''get'' of
                     Inl e \<Rightarrow> Inl (Raise e)
                   | Inr g \<Rightarrow>
                       Inr (\<lparr>prediction_id = dget result ''id'',
                             prediction_url =
                               (case g of
                                  Some u \<Rightarrow>
                                    if truthy u then u
                                    else JStr (''https://api.replicate.com/v1/predictions/''
                                               @ str (dget result ''id''))
                                | None \<Rightarrow>
                                    JStr (''https://api.replicate.com/v1/predictions/''
                                          @ str (dget result ''id'')))\<rparr>,
                            result))
              | _ \<Rightarrow> Inl (Raise AttributeError))))"

subsection \<open>The polling loop\<close>

record poll_state =
  status :: json
  result :: dict
  elapsed :: rat
  last_status_update :: rat
  polls :: nat
  trace :: "io list"

datatype loop_exit =
    Terminal
  | Deadline
  | Raised py_exception

text \<open>
  Lines 256 to 273, one turn of the loop after the deadline test: the sleep, the status
  check and the reading of its answer. A response whose code is not 200 leaves \<open>status\<close>
  and \<open>result\<close> as they were; an exception of the HTTP client, or a body that has no
  \<open>get\<close>, leaves the loop.
\<close>

definition poll_once ::
  "valves \<Rightarrow> bool \<Rightarrow> json \<Rightarrow> reply \<Rightarrow> poll_state \<Rightarrow> py_exception option \<times> poll_state" where
  "poll_once v emitter url answer s =
     (let s1 = s\<lparr>elapsed := elapsed s + polling_interval v,
                 polls := Suc (polls s),
                 trace := trace s @ [Sleep (polling_interval v), Get url]\<rparr>
      in case answer of
           Raises msg \<Rightarrow> (Some (ClientError msg), s1)
         | Response code text body \<Rightarrow>
             (if code = 200 then
                (case body of
                   JDict d \<Rightarrow>
                     (let s2 = s1\<lparr>result := d, status := dget d ''status''\<rparr>
                      in if emitter \<and> elapsed s2 - last_status_update s2 \<ge> 5
                         then (None, s2\<lparr>trace := trace s2 @ [Emit (Processing (elapsed s2))],
                                        last_status_update := elapsed s2\<rparr>)
                         else (None, s2))
                 | _ \<Rightarrow> (Some AttributeError, s1))
              else (None, s1)))"

text \<open>
  Lines 252 to 273. \<open>polls\<close> counts the status checks made so far and selects the next
  answer. The loop need not end, so it is a partial function: \<open>None\<close> is a run that
  never returns.
\<close>

partial_function (option) poll_loop ::
  "valves \<Rightarrow> bool \<Rightarrow> json \<Rightarrow> (nat \<Rightarrow> reply) \<Rightarrow> poll_state \<Rightarrow> (loop_exit \<times> poll_state) option"
where
  "poll_loop v emitter url answers s =
     (if terminal (status s) then Some (Terminal, s)
      else if elapsed s \<ge> of_int (max_wait_time v) then Some (Deadline, s)
      else
        (case poll_once v emitter url (answers (polls s)) s of
           (Some e, s') \<Rightarrow> Some (Raised e, s')
         | (None, s') \<Rightarrow> poll_loop v emitter url answers s'))"

declare poll_loop.simps [code]

subsection \<open>The result\<close>

text \<open>\<open>output[0] if isinstance(output, list) else output\<close>, for a non-empty \<open>output\<close>.\<close>

fun first_or_self :: "json \<Rightarrow> json" where
  "first_or_self (JList (x # xs)) = x"
| "first_or_self output = output"

text \<open>Lines 275 to 288.\<close>

definition handle_result :: "json \<Rightarrow> dict \<Rightarrow> outcome" where
  "handle_result st res =
     (if st = JStr ''failed'' then Generation_failed (dget_default res ''error'' (JStr ''Unknown error''))
      else if st = JStr ''canceled'' then Generation_canceled
      else
        (let output = dget res ''output''
         in if \<not> truthy output then No_output res
            else Image_ready (first_or_self output)))"

text \<open>The two \<open>except\<close> clauses that close \<open>edit_image\<close>.\<close>

definition except_handler :: "bool \<Rightarrow> py_exception \<Rightarrow> io list \<Rightarrow> outcome \<times> io list" where
  "except_handler emitter e tr =
     (case e of
        ClientError msg \<Rightarrow>
          (Network_error msg, tr @ (if emitter then [Emit Status_network_error] else []))
      | _ \<Rightarrow> (Unexpected_error e, tr @ (if emitter then [Emit Status_error] else [])))"

definition image_keys :: "string list" where
  "image_keys = [''image'', ''image_2'', ''image_3'']"

text \<open>
  What \<open>edit_image\<close> has done when the creation call is out (lines 198 to 236), and the
  variables it sets before the loop (lines 247 to 250).
\<close>

definition start_trace :: "bool \<Rightarrow> (string \<Rightarrow> py_exception + byte list) \<Rightarrow> string list \<Rightarrow> io list" where
  "start_trace emitter dec images =
     (if emitter then [Emit (Generating (length images))] else [])
     @ [Post (zip image_keys (map (image_slot dec) images))]"

definition start_state :: "dict \<Rightarrow> io list \<Rightarrow> poll_state" where
  "start_state res t0 =
     \<lparr>status = dget res ''status'', result = res, elapsed = 0, last_status_update = 0,
      polls = 0, trace = t0\<rparr>"

definition edit_image ::
  "valves \<Rightarrow> (json \<Rightarrow> string) \<Rightarrow> (string \<Rightarrow> py_exception + byte list) \<Rightarrow> bool \<Rightarrow> dict list
     \<Rightarrow> reply \<Rightarrow> (nat \<Rightarrow> reply) \<Rightarrow> (outcome \<times> io list) option" where
  "edit_image v str dec emitter messages create answers =
     (if replicate_api_token v = [] then Some (Token_missing, [])
      else if messages = [] then Some (No_messages, [])
      else
        (let images = extract_images_from_messages messages 3
         in if images = [] then Some (No_images, [])
            else
              (let t0 = start_trace emitter dec images
               in case submit str create of
                    Inl (Return out) \<Rightarrow> Some (out, t0)
                  | Inl (Raise e) \<Rightarrow> Some (except_handler emitter e t0)
                  | Inr (h, res) \<Rightarrow>
                      (case poll_loop v emitter (prediction_url h) answers (start_state res t0) of
                         None \<Rightarrow> None
                       | Some (Deadline, s) \<Rightarrow>
                           Some (Timeout (max_wait_time v) (prediction_id h), trace s)
                       | Some (Raised e, s) \<Rightarrow> Some (except_handler emitter e (trace s))
                       | Some (Terminal, s) \<Rightarrow>
                           (case handle_result (status s) (result s) of
                              Image_ready u \<Rightarrow>
                                Some (Image_ready u,
                                      trace s @ (if emitter then [Emit Complete] else []))
                            | out \<Rightarrow> Some (out, trace s))))))"

section \<open>Reading the outcome as the specification does\<close>

text \<open>
  The specification speaks of a job state, a list of artifacts and an error; the tool
  returns one of its messages. Each message is read as follows: the image is the one
  success, the timeout message is the local deadline, the two provider messages are the
  provider's failed and canceled states, and every other message is a failure.
\<close>

datatype job_state = Submitted | Running | Succeeded | Failed | Canceled | Timed_out



fun artifacts :: "outcome \<Rightarrow> json list" where
  "artifacts (Image_ready u) = [u]"
| "artifacts out = []"


text \<open>The provider's error value that the message quotes, if it quotes one.\<close>

fun provider_error :: "outcome \<Rightarrow> json option" where
  "provider_error (Generation_failed e) = Some e"
| "provider_error out = None"

text \<open>An answer to a status check that reports no terminal state and raises nothing.\<close>

definition pending :: "reply \<Rightarrow> bool" where
  "pending answer =
     (case answer of
        Raises msg \<Rightarrow> False
      | Response code text body \<Rightarrow>
          (code = 200 \<longrightarrow>
             (case body of JDict d \<Rightarrow> \<not> terminal (dget d ''status'') | _ \<Rightarrow> False)))"

text \<open>An answer to a status check with a code other than 200.\<close>

definition rejected :: "reply \<Rightarrow> bool" where
  "rejected answer = (case answer of Raises msg \<Rightarrow> False | Response code text body \<Rightarrow> code \<noteq> 200)"




fun is_post :: "io \<Rightarrow> bool" where
  "is_post (Post slots) = True"
| "is_post a = False"

fun is_get :: "io \<Rightarrow> bool" where
  "is_get (Get url) = True"
| "is_get a = False"

fun slept :: "io list \<Rightarrow> rat" where
  "slept [] = 0"
| "slept (Sleep d # tr) = d + slept tr"
| "slept (a # tr) = slept tr"

section \<open>Sample inputs\<close>

text \<open>Python's \<open>str\<close> on the values the samples meet: a string, and \<open>None\<close>.\<close>

fun sample_str :: "json \<Rightarrow> string" where
  "sample_str (JStr s) = s"
| "sample_str j = ''None''"

definition sample_valves :: "int \<Rightarrow> rat \<Rightarrow> valves" where
  "sample_valves deadline interval =
     \<lparr>replicate_api_token = ''r8_token'', max_wait_time = deadline, polling_interval = interval\<rparr>"

definition image_item :: "string \<Rightarrow> json" where
  "image_item url = JDict [(''type'', JStr ''image_url''), (''image_url'', JDict [(''url'', JStr url)])]"

definition older_user_message :: dict where
  "older_user_message =
     [(''role'', JStr ''user''),
      (''content'', JList [image_item ''data:image/png;base64,OLDER'',
                          image_item ''https://x/old.png''])]"

definition assistant_message :: dict where
  "assistant_message = [(''role'', JStr ''assistant''), (''content'', JStr ''Working on it.'')]"

definition newest_user_message :: dict where
  "newest_user_message =
     [(''role'', JStr ''user''),
      (''content'',
       JList [JDict [(''type'', JStr ''text''), (''text'', JStr ''Make the sofa blue'')],
              image_item ''data:image/png;base64,iVBORw0KGgoAAAANSUhEUgAAAAEAAAABCAYAAAA='',
              image_item ''https://x/b.png'',
              image_item ''data:image/jpeg;base64,/9j/4AAQSkZJRgABAQAAAQABAAD/2wBDAAg='',
              image_item ''data:image/gif;base64,R0lGODlhAQABAIAAAAAAAP///yH5BAEAAAA=''])]"

definition sample_messages :: "dict list" where
  "sample_messages = [older_user_message, assistant_message] @ newest_user_message # [assistant_message]"

definition sample_created :: reply where
  "sample_created =
     Response 201 []
       (JDict [(''id'', JStr ''p1''), (''status'', JStr ''starting''),
               (''urls'', JDict [(''get'', JStr ''https://api.replicate.com/v1/predictions/p1'')])])"

definition status_reply :: "string \<Rightarrow> reply" where
  "status_reply st = Response 200 [] (JDict [(''id'', JStr ''p1''), (''status'', JStr st)])"

definition always_processing :: "nat \<Rightarrow> reply" where
  "always_processing k = status_reply ''processing''"

definition always_unavailable :: "nat \<Rightarrow> reply" where
  "always_unavailable k = Response 503 ''Service Unavailable'' JNull"

definition connection_lost :: "nat \<Rightarrow> reply" where
  "connection_lost k = Raises ''Connection reset by peer''"

definition created_without_id :: reply where
  "created_without_id = Response 201 [] (JDict [(''status'', JStr ''starting'')])"

definition failed_job :: "nat \<Rightarrow> reply" where
  "failed_job k =
     Response 200 []
       (JDict [(''id'', JStr ''p1''), (''status'', JStr ''failed''), (''error'', JStr ''bad input'')])"

definition canceled_job :: "nat \<Rightarrow> reply" where
  "canceled_job k =
     Response 200 []
       (JDict [(''id'', JStr ''p1''), (''status'', JStr ''canceled''),
               (''error'', JStr ''Canceled by user'')])"

definition succeeding_job :: "json \<Rightarrow> nat \<Rightarrow> reply" where
  "succeeding_job output k =
     (if k < 2 then status_reply ''processing''
      else Response 200 []
             (JDict [(''id'', JStr ''p1''), (''status'', JStr ''succeeded''), (''output'', output)]))"

definition hiccup :: "nat \<Rightarrow> reply" where
  "hiccup k =
     (if k = 0 then Raises ''Connection reset by peer''
      else Response 200 []
             (JDict [(''id'', JStr ''p1''), (''status'', JStr ''succeeded''),
                     (''output'', JList [JStr ''https://x/a.png''])]))"

section \<open>Images are taken from the last user message\<close>









section \<open>The media type of an inline image\<close>

lemmas b64_eval = b64decode_def b64_index_def sublist_code(3)

text \<open>
  C10. \<open>detect_image_mime\<close> returns a value for every string, and the value is one of the
  four media types. It is \<open>image/png\<close> whenever the decoder raises, and whenever the
  decoded header carries none of the other three marks. This holds for every decoder.
\<close>

theorem detect_image_mime_total:
  "detect_image_mime dec s \<in> {''image/png'', ''image/jpeg'', ''image/gif'', ''image/webp''}
   \<and> ((\<exists>e. dec (take 32 s) = Inl e) \<longrightarrow> detect_image_mime dec s = ''image/png'')
   \<and> (\<forall>header. dec (take 32 s) = Inr header
         \<and> \<not> prefix [0xFF, 0xD8, 0xFF] header
         \<and> \<not> prefix [0x47, 0x49, 0x46] header
         \<and> \<not> (prefix [0x52, 0x49, 0x46, 0x46] header \<and> sublist [0x57, 0x45, 0x42, 0x50] header)
       \<longrightarrow> detect_image_mime dec s = ''image/png'')"
  by (auto simp: detect_image_mime_def split: sum.splits)

theorem detect_image_mime_total_witness:
  "b64decode (take 32 ''not base64!'') = Inl BinasciiError
   \<and> detect_image_mime b64decode ''not base64!'' = ''image/png''
   \<and> b64decode (take 32 ''AAAA'') = Inr [0, 0, 0]
   \<and> \<not> prefix [0xFF, 0xD8, 0xFF] [0, 0, 0 :: byte]
   \<and> \<not> prefix [0x47, 0x49, 0x46] [0, 0, 0 :: byte]
   \<and> \<not> prefix [0x52, 0x49, 0x46, 0x46] [0, 0, 0 :: byte]
   \<and> detect_image_mime b64decode ''AAAA'' = ''image/png''"
  using detect_image_mime_total [of b64decode "''not base64!''"]
    detect_image_mime_total [of b64decode "''AAAA''"]
  by (simp add: b64_eval)



section \<open>The polling loop\<close>

lemma poll_once_pending:
  assumes "pending answer" and "\<not> terminal (status s)"
  shows "fst (poll_once v emitter url answer s) = None"
    and "\<not> terminal (status (snd (poll_once v emitter url answer s)))"
  using assms
  by (auto simp: pending_def poll_once_def Let_def split: reply.splits json.splits)

lemma poll_once_elapsed:
  "elapsed (snd (poll_once v emitter url answer s)) = elapsed s + polling_interval v"
  by (simp add: poll_once_def Let_def split: reply.splits json.splits)

lemma poll_loop_deadline_aux:
  assumes i: "0 < polling_interval v"
    and a: "\<forall>k. pending (answers k)"
  shows "\<not> terminal (status s) \<Longrightarrow> elapsed s < of_int (max_wait_time v) + polling_interval v \<Longrightarrow>
         \<exists>s'. poll_loop v emitter url answers s = Some (Deadline, s')
              \<and> of_int (max_wait_time v) \<le> elapsed s'
              \<and> elapsed s' < of_int (max_wait_time v) + polling_interval v"
proof (induction "nat \<lceil>(of_int (max_wait_time v) - elapsed s) / polling_interval v\<rceil>"
         arbitrary: s rule: less_induct)
  case less
  let ?D = "of_int (max_wait_time v) :: rat"
  let ?i = "polling_interval v"
  show ?case
  proof (cases "elapsed s \<ge> ?D")
    case True
    with less.prems show ?thesis
      by (subst poll_loop.simps) simp
  next
    case False
    let ?r = "poll_once v emitter url (answers (polls s)) s"
    let ?s' = "snd ?r"
    from a have p: "pending (answers (polls s))" by simp
    note po = poll_once_pending [OF p less.prems(1), of v emitter url]
    have e: "elapsed ?s' = elapsed s + ?i" by (rule poll_once_elapsed)
    from False have pos: "0 < (?D - elapsed s) / ?i" using i by simp
    have "(?D - elapsed ?s') / ?i = (?D - elapsed s) / ?i - 1"
      using i e by (simp add: field_simps)
    then have "\<lceil>(?D - elapsed ?s') / ?i\<rceil> = \<lceil>(?D - elapsed s) / ?i\<rceil> - 1"
      by simp
    moreover from pos have "0 < \<lceil>(?D - elapsed s) / ?i\<rceil>" by simp
    ultimately have m: "nat \<lceil>(?D - elapsed ?s') / ?i\<rceil> < nat \<lceil>(?D - elapsed s) / ?i\<rceil>"
      by simp
    have b: "elapsed ?s' < ?D + ?i" using e False by simp
    from less.hyps [OF m po(2) b]
    obtain s'' where "poll_loop v emitter url answers ?s' = Some (Deadline, s'')"
      and "?D \<le> elapsed s''" and "elapsed s'' < ?D + ?i" by blast
    moreover have "poll_loop v emitter url answers s = poll_loop v emitter url answers ?s'"
      using False less.prems(1) po(1) by (subst poll_loop.simps) (simp add: split_beta)
    ultimately show ?thesis by auto
  qed
qed





lemma rejected_pending: "rejected answer \<Longrightarrow> pending answer"
  by (auto simp: rejected_def pending_def split: reply.splits)

lemma poll_once_rejected:
  "code \<noteq> 200 \<Longrightarrow>
   poll_once v emitter url (Response code text body) s =
     (None, s\<lparr>elapsed := elapsed s + polling_interval v, polls := Suc (polls s),
              trace := trace s @ [Sleep (polling_interval v), Get url]\<rparr>)"
  by (simp add: poll_once_def)

lemma poll_loop_rejected_keeps:
  assumes "poll_loop v emitter url answers s = Some y"
  shows "(\<forall>k. rejected (answers k)) \<longrightarrow> status (snd y) = status s \<and> result (snd y) = result s"
proof (rule poll_loop.raw_induct
    [where P = "\<lambda>v emitter url answers s y.
        (\<forall>k. rejected (answers k)) \<longrightarrow> status (snd y) = status s \<and> result (snd y) = result s",
      OF _ assms])
  fix f v emitter url answers s and y :: "loop_exit \<times> poll_state"
  let ?r = "poll_once v emitter url (answers (polls s)) s"
  assume IH: "\<And>v emitter url answers s y. f v emitter url answers s = Some y \<Longrightarrow>
      (\<forall>k. rejected (answers k)) \<longrightarrow> status (snd y) = status s \<and> result (snd y) = result s"
    and body: "(if terminal (status s) then Some (Terminal, s)
      else if elapsed s \<ge> of_int (max_wait_time v) then Some (Deadline, s)
      else
        (case ?r of
           (None, s') \<Rightarrow> f v emitter url answers s'
         | (Some e, s') \<Rightarrow> Some (Raised e, s'))) = Some y"
  show "(\<forall>k. rejected (answers k)) \<longrightarrow> status (snd y) = status s \<and> result (snd y) = result s"
  proof
    assume a: "\<forall>k. rejected (answers k)"
    then have "rejected (answers (polls s))" by simp
    then obtain code tx body where r: "answers (polls s) = Response code tx body" "code \<noteq> 200"
      by (cases "answers (polls s)") (auto simp: rejected_def)
    note po = poll_once_rejected [OF r(2), of v emitter url tx body s]
    from body show "status (snd y) = status s \<and> result (snd y) = result s"
      using a r(1) po IH [of v emitter url answers "snd ?r" y]
      by (auto split: if_splits)
  qed
qed










section \<open>Sample runs\<close>

lemma sample_images:
  "extract_images_from_messages sample_messages 3 =
     [''iVBORw0KGgoAAAANSUhEUgAAAAEAAAABCAYAAAA='', ''https://x/b.png'',
      ''/9j/4AAQSkZJRgABAQAAAQABAAD/2wBDAAg='']"
  by (simp add: sample_messages_def extract_images_from_messages_def last_user_message_def
      is_user_def older_user_message_def assistant_message_def newest_user_message_def
      image_item_def is_image_item_def item_images_def item_url_def after_comma_def)

lemma sample_submit:
  "submit sample_str sample_created =
     Inr (\<lparr>prediction_id = JStr ''p1'',
           prediction_url = JStr ''https://api.replicate.com/v1/predictions/p1''\<rparr>,
          [(''id'', JStr ''p1''), (''status'', JStr ''starting''),
           (''urls'', JDict [(''get'', JStr ''https://api.replicate.com/v1/predictions/p1'')])])"
  by (simp add: submit_def sample_created_def dget_def dget_default_def)


lemma sample_valves_simps [simp]:
  "replicate_api_token (sample_valves d i) = ''r8_token''"
  "max_wait_time (sample_valves d i) = d"
  "polling_interval (sample_valves d i) = i"
  by (simp_all add: sample_valves_def)


lemma always_unavailable_rejected: "rejected (always_unavailable k)"
  by (simp add: always_unavailable_def rejected_def)

lemma starting_state [simp]:
  "status (start_state [(''status'', JStr ''starting'')] t0) = JStr ''starting''"
  "result (start_state [(''status'', JStr ''starting'')] t0) = [(''status'', JStr ''starting'')]"
  "elapsed (start_state res t0) = 0"
  "last_status_update (start_state res t0) = 0"
  "polls (start_state res t0) = 0"
  "trace (start_state res t0) = t0"
  by (simp_all add: start_state_def dget_def dget_default_def)

lemma starting_not_terminal [simp]: "\<not> terminal (JStr ''starting'')"
  by (simp add: terminal_def)

section \<open>The deadline\<close>

lemma edit_image_polls:
  assumes "replicate_api_token v \<noteq> []" and "extract_images_from_messages messages 3 \<noteq> []"
    and "submit str create = Inr (h, res)"
  shows "edit_image v str dec emitter messages create answers =
     (case poll_loop v emitter (prediction_url h) answers
             (start_state res (start_trace emitter dec (extract_images_from_messages messages 3))) of
        None \<Rightarrow> None
      | Some (Deadline, s) \<Rightarrow> Some (Timeout (max_wait_time v) (prediction_id h), trace s)
      | Some (Raised e, s) \<Rightarrow> Some (except_handler emitter e (trace s))
      | Some (Terminal, s) \<Rightarrow>
          (case handle_result (status s) (result s) of
             Image_ready u \<Rightarrow> Some (Image_ready u, trace s @ (if emitter then [Emit Complete] else []))
           | out \<Rightarrow> Some (out, trace s)))"
proof -
  from assms(2) have "messages \<noteq> []"
    by (auto simp: extract_images_from_messages_def last_user_message_def)
  with assms show ?thesis
    by (simp add: edit_image_def Let_def)
qed




section \<open>Progress reports\<close>




section \<open>Status checks that fail\<close>

text \<open>
  C5. A status check answered with a code other than 200 does not end the loop: it leaves
  the status and the result as they were, reports nothing, and costs one polling interval
  of elapsed time, as every status check does whatever its answer. Against a service that
  answers every status check with such a code, with a positive interval and a deadline
  that is not negative, the run ends at the deadline with the status it started with.
  A status check that raises a client error ends the loop at once with that error.
\<close>

theorem failed_poll_retried:
  "(code \<noteq> 200 \<longrightarrow>
      poll_once v emitter url (Response code text body) s =
        (None, s\<lparr>elapsed := elapsed s + polling_interval v, polls := Suc (polls s),
                 trace := trace s @ [Sleep (polling_interval v), Get url]\<rparr>))
   \<and> elapsed (snd (poll_once v emitter url answer s)) = elapsed s + polling_interval v
   \<and> (0 < polling_interval v \<and> 0 \<le> max_wait_time v \<and> (\<forall>k. rejected (answers k))
        \<and> \<not> terminal (status s) \<and> elapsed s = 0 \<longrightarrow>
      (\<exists>s'. poll_loop v emitter url answers s = Some (Deadline, s')
            \<and> status s' = status s \<and> result s' = result s
            \<and> of_int (max_wait_time v) \<le> elapsed s'
            \<and> elapsed s' < of_int (max_wait_time v) + polling_interval v))
   \<and> (\<not> terminal (status s) \<and> elapsed s < of_int (max_wait_time v)
        \<and> answers (polls s) = Raises msg \<longrightarrow>
      poll_loop v emitter url answers s =
        Some (Raised (ClientError msg),
              s\<lparr>elapsed := elapsed s + polling_interval v, polls := Suc (polls s),
                trace := trace s @ [Sleep (polling_interval v), Get url]\<rparr>))"
proof (intro conjI impI)
  assume "code \<noteq> 200"
  then show "poll_once v emitter url (Response code text body) s =
        (None, s\<lparr>elapsed := elapsed s + polling_interval v, polls := Suc (polls s),
                 trace := trace s @ [Sleep (polling_interval v), Get url]\<rparr>)"
    by (rule poll_once_rejected)
next
  show "elapsed (snd (poll_once v emitter url answer s)) = elapsed s + polling_interval v"
    by (rule poll_once_elapsed)
next
  assume h: "0 < polling_interval v \<and> 0 \<le> max_wait_time v \<and> (\<forall>k. rejected (answers k))
        \<and> \<not> terminal (status s) \<and> elapsed s = 0"
  then have p: "\<forall>k. pending (answers k)" by (simp add: rejected_pending)
  from h have "elapsed s < of_int (max_wait_time v) + polling_interval v" by simp
  from poll_loop_deadline_aux [of v answers s emitter url, OF _ p _ this] h
  obtain s' where run: "poll_loop v emitter url answers s = Some (Deadline, s')"
    and b: "of_int (max_wait_time v) \<le> elapsed s'"
           "elapsed s' < of_int (max_wait_time v) + polling_interval v"
    by blast
  from poll_loop_rejected_keeps [OF run] h have "status s' = status s \<and> result s' = result s"
    by simp
  with run b show "\<exists>s'. poll_loop v emitter url answers s = Some (Deadline, s')
            \<and> status s' = status s \<and> result s' = result s
            \<and> of_int (max_wait_time v) \<le> elapsed s'
            \<and> elapsed s' < of_int (max_wait_time v) + polling_interval v"
    by blast
next
  assume "\<not> terminal (status s) \<and> elapsed s < of_int (max_wait_time v)
        \<and> answers (polls s) = Raises msg"
  then show "poll_loop v emitter url answers s =
        Some (Raised (ClientError msg),
              s\<lparr>elapsed := elapsed s + polling_interval v, polls := Suc (polls s),
                trace := trace s @ [Sleep (polling_interval v), Get url]\<rparr>)"
    by (subst poll_loop.simps) (simp add: poll_once_def)
qed



theorem failed_poll_retried_witness:
  "(503::nat) \<noteq> 200
   \<and> poll_once (sample_valves 5 1) False (JStr ''u'') (Response 503 ''Service Unavailable'' JNull)
       (start_state [(''status'', JStr ''starting'')] [])
     = (None, \<lparr>status = JStr ''starting'', result = [(''status'', JStr ''starting'')], elapsed = 1,
               last_status_update = 0, polls = 1, trace = [Sleep 1, Get (JStr ''u'')]\<rparr>)
   \<and> elapsed (snd (poll_once (sample_valves 5 1) False (JStr ''u'') (status_reply ''processing'')
        (start_state [(''status'', JStr ''starting'')] []))) = 1
   \<and> 0 < polling_interval (sample_valves 5 1) \<and> 0 \<le> max_wait_time (sample_valves 5 1)
   \<and> (\<forall>k. rejected (always_unavailable k))
   \<and> \<not> terminal (status (start_state [(''status'', JStr ''starting'')] []))
   \<and> (\<exists>s' :: poll_state.
         poll_loop (sample_valves 5 1) False (JStr ''u'') always_unavailable
           (start_state [(''status'', JStr ''starting'')] []) = Some (Deadline, s')
         \<and> status s' = JStr ''starting'' \<and> 5 \<le> elapsed s' \<and> elapsed s' < 6)
   \<and> connection_lost 0 = Raises ''Connection reset by peer''
   \<and> poll_loop (sample_valves 5 1) False (JStr ''u'') connection_lost
        (start_state [(''status'', JStr ''starting'')] [])
      = Some (Raised (ClientError ''Connection reset by peer''),
              \<lparr>status = JStr ''starting'', result = [(''status'', JStr ''starting'')], elapsed = 1,
               last_status_update = 0, polls = 1, trace = [Sleep 1, Get (JStr ''u'')]\<rparr>)"
proof -
  let ?v = "sample_valves 5 1"
  let ?s = "start_state [(''status'', JStr ''starting'')] []"
  note a = failed_poll_retried [of 503 ?v False "JStr ''u''" "''Service Unavailable''" JNull ?s
      "status_reply ''processing''" always_unavailable]
  note b = failed_poll_retried [of _ ?v False "JStr ''u''" _ _ ?s _ connection_lost
      "''Connection reset by peer''"]
  have s: "?s\<lparr>elapsed := elapsed ?s + polling_interval ?v, polls := Suc (polls ?s),
              trace := trace ?s @ [Sleep (polling_interval ?v), Get (JStr ''u'')]\<rparr>
      = \<lparr>status = JStr ''starting'', result = [(''status'', JStr ''starting'')], elapsed = 1,
               last_status_update = 0, polls = 1, trace = [Sleep 1, Get (JStr ''u'')]\<rparr>"
    by (simp add: start_state_def dget_def dget_default_def)
  have 1: "poll_once ?v False (JStr ''u'') (Response 503 ''Service Unavailable'' JNull) ?s
     = (None, \<lparr>status = JStr ''starting'', result = [(''status'', JStr ''starting'')], elapsed = 1,
               last_status_update = 0, polls = 1, trace = [Sleep 1, Get (JStr ''u'')]\<rparr>)"
    using a [THEN conjunct1] s by simp
  have 2: "elapsed (snd (poll_once ?v False (JStr ''u'') (status_reply ''processing'') ?s)) = 1"
    using a [THEN conjunct2, THEN conjunct1] by simp
  have r: "\<forall>k. rejected (always_unavailable k)"
    by (simp add: always_unavailable_rejected)
  from a [THEN conjunct2, THEN conjunct2, THEN conjunct1] r
  have "\<exists>s' :: poll_state.
         poll_loop ?v False (JStr ''u'') always_unavailable ?s = Some (Deadline, s')
         \<and> status s' = status ?s \<and> result s' = result ?s
         \<and> of_int (max_wait_time ?v) \<le> elapsed s'
         \<and> elapsed s' < of_int (max_wait_time ?v) + polling_interval ?v"
    by simp
  then obtain s' :: poll_state where
    "poll_loop ?v False (JStr ''u'') always_unavailable ?s = Some (Deadline, s')
         \<and> status s' = status ?s \<and> result s' = result ?s
         \<and> of_int (max_wait_time ?v) \<le> elapsed s'
         \<and> elapsed s' < of_int (max_wait_time ?v) + polling_interval ?v" ..
  then have "poll_loop ?v False (JStr ''u'') always_unavailable ?s = Some (Deadline, s')
         \<and> status s' = JStr ''starting'' \<and> 5 \<le> elapsed s' \<and> elapsed s' < 6"
    by simp
  then have 3: "\<exists>s' :: poll_state.
         poll_loop ?v False (JStr ''u'') always_unavailable ?s = Some (Deadline, s')
         \<and> status s' = JStr ''starting'' \<and> 5 \<le> elapsed s' \<and> elapsed s' < 6"
    by (rule exI [of _ s'])
  have 4: "poll_loop ?v False (JStr ''u'') connection_lost ?s
      = Some (Raised (ClientError ''Connection reset by peer''),
              \<lparr>status = JStr ''starting'', result = [(''status'', JStr ''starting'')], elapsed = 1,
               last_status_update = 0, polls = 1, trace = [Sleep 1, Get (JStr ''u'')]\<rparr>)"
    using b [THEN conjunct2, THEN conjunct2, THEN conjunct2] s
    by (simp add: connection_lost_def)
  from 1 2 3 4 r show ?thesis
    by (simp add: connection_lost_def)
qed

theorem failed_poll_retried_counterexample:
  "edit_image (sample_valves 300 (3 / 2)) sample_str b64decode True sample_messages sample_created
     hiccup
   = Some (Network_error ''Connection reset by peer'',
           [Emit (Generating 3),
            Post [(''image'', ''data:image/png;base64,iVBORw0KGgoAAAANSUhEUgAAAAEAAAABCAYAAAA=''),
                  (''image_2'', ''https://x/b.png''),
                  (''image_3'', ''data:image/jpeg;base64,/9j/4AAQSkZJRgABAQAAAQABAAD/2wBDAAg='')],
            Sleep (3 / 2), Get (JStr ''https://api.replicate.com/v1/predictions/p1''),
            Emit Status_network_error])"
  using edit_image_polls [of "sample_valves 300 (3 / 2)" sample_messages sample_str sample_created _ _
      b64decode True hiccup, OF _ _ sample_submit]
  by (simp add: sample_images poll_loop.simps start_state_def start_trace_def
      dget_def dget_default_def terminal_def poll_once_def hiccup_def except_handler_def
      image_keys_def image_slot_def detect_image_mime_def b64_eval)

section \<open>Submission\<close>

lemma post_once:
  "length (filter is_post (start_trace emitter dec images)) = 1"
  "filter is_get (start_trace emitter dec images) = []"
  "slept (start_trace emitter dec images) = 0"
  by (simp_all add: start_trace_def)

text \<open>
  C2. The creation step either yields a handle or fails, never both. A handle comes only
  from a response with code 200 or 201 whose body is an object; its locator is never
  empty (the address in the response, or else the fallback address built from the
  identifier), and its identifier is whatever the \<open>id\<close> field of the response holds. A
  failure is the client error that the call raised, or the API error for a response with
  any other code, or the attribute error for a body that cannot be read. For every
  response whose code is neither 200 nor 201, \<open>edit_image\<close> returns the API error at once:
  it has made one creation call and no status check, whatever the status checks would
  have answered.
\<close>

theorem submit_handle_or_error:
  "(submit str create = Inr (h, res) \<longrightarrow>
      truthy (prediction_url h) \<and> prediction_id h = dget res ''id''
      \<and> (\<exists>code text. (code = 200 \<or> code = 201) \<and> create = Response code text (JDict res)))
   \<and> (submit str create = Inl a \<longrightarrow>
        (\<exists>msg. create = Raises msg \<and> a = Raise (ClientError msg))
        \<or> (\<exists>code text body. create = Response code text body \<and> code \<noteq> 200 \<and> code \<noteq> 201
              \<and> a = Return (Api_error code (take 200 text)))
        \<or> (\<exists>code text body. create = Response code text body \<and> (code = 200 \<or> code = 201)
              \<and> a = Raise AttributeError))
   \<and> (code \<noteq> 200 \<and> code \<noteq> 201 \<longrightarrow>
        submit str (Response code text body) = Inl (Return (Api_error code (take 200 text))))
   \<and> (code \<noteq> 200 \<and> code \<noteq> 201 \<and> replicate_api_token v \<noteq> []
        \<and> extract_images_from_messages messages 3 \<noteq> [] \<longrightarrow>
        edit_image v str dec emitter messages (Response code text body) answers
          = Some (Api_error code (take 200 text),
                  start_trace emitter dec (extract_images_from_messages messages 3))
        \<and> length (filter is_post (start_trace emitter dec (extract_images_from_messages messages 3))) = 1
        \<and> filter is_get (start_trace emitter dec (extract_images_from_messages messages 3)) = [])"
proof -
  have 1: "submit str create = Inr (h, res) \<longrightarrow>
      truthy (prediction_url h) \<and> prediction_id h = dget res ''id''
      \<and> (\<exists>code text. (code = 200 \<or> code = 201) \<and> create = Response code text (JDict res))"
    by (auto simp: submit_def split: reply.splits if_splits json.splits sum.splits option.splits)
  have 2: "submit str create = Inl a \<longrightarrow>
        (\<exists>msg. create = Raises msg \<and> a = Raise (ClientError msg))
        \<or> (\<exists>code text body. create = Response code text body \<and> code \<noteq> 200 \<and> code \<noteq> 201
              \<and> a = Return (Api_error code (take 200 text)))
        \<or> (\<exists>code text body. create = Response code text body \<and> (code = 200 \<or> code = 201)
              \<and> a = Raise AttributeError)"
    by (cases create)
      (auto simp: submit_def dget_default_def
        split: if_splits json.splits sum.splits option.splits elim: py_get.elims)
  have 3: "code \<noteq> 200 \<and> code \<noteq> 201 \<longrightarrow>
        submit str (Response code text body) = Inl (Return (Api_error code (take 200 text)))"
    by (simp add: submit_def)
  have 4: "code \<noteq> 200 \<and> code \<noteq> 201 \<and> replicate_api_token v \<noteq> []
        \<and> extract_images_from_messages messages 3 \<noteq> [] \<longrightarrow>
        edit_image v str dec emitter messages (Response code text body) answers
          = Some (Api_error code (take 200 text),
                  start_trace emitter dec (extract_images_from_messages messages 3))
        \<and> length (filter is_post (start_trace emitter dec (extract_images_from_messages messages 3))) = 1
        \<and> filter is_get (start_trace emitter dec (extract_images_from_messages messages 3)) = []"
  proof
    assume h: "code \<noteq> 200 \<and> code \<noteq> 201 \<and> replicate_api_token v \<noteq> []
        \<and> extract_images_from_messages messages 3 \<noteq> []"
    then have "messages \<noteq> []"
      by (auto simp: extract_images_from_messages_def last_user_message_def)
    with h have "edit_image v str dec emitter messages (Response code text body) answers
          = Some (Api_error code (take 200 text),
                  start_trace emitter dec (extract_images_from_messages messages 3))"
      by (simp add: edit_image_def submit_def Let_def)
    then show "edit_image v str dec emitter messages (Response code text body) answers
          = Some (Api_error code (take 200 text),
                  start_trace emitter dec (extract_images_from_messages messages 3))
        \<and> length (filter is_post (start_trace emitter dec (extract_images_from_messages messages 3))) = 1
        \<and> filter is_get (start_trace emitter dec (extract_images_from_messages messages 3)) = []"
      by (simp add: post_once)
  qed
  from 1 2 3 4 show ?thesis by (intro conjI) assumption+
qed


theorem submit_handle_or_error_witness:
  "submit sample_str sample_created =
     Inr (\<lparr>prediction_id = JStr ''p1'',
           prediction_url = JStr ''https://api.replicate.com/v1/predictions/p1''\<rparr>,
          [(''id'', JStr ''p1''), (''status'', JStr ''starting''),
           (''urls'', JDict [(''get'', JStr ''https://api.replicate.com/v1/predictions/p1'')])])
   \<and> truthy (JStr ''https://api.replicate.com/v1/predictions/p1'')
   \<and> submit sample_str (Raises ''Cannot connect to host'')
       = Inl (Raise (ClientError ''Cannot connect to host''))
   \<and> (422::nat) \<noteq> 200 \<and> (422::nat) \<noteq> 201
   \<and> submit sample_str (Response 422 ''Invalid input'' JNull)
       = Inl (Return (Api_error 422 ''Invalid input''))
   \<and> replicate_api_token (sample_valves 300 1) \<noteq> []
   \<and> extract_images_from_messages sample_messages 3 \<noteq> []
   \<and> edit_image (sample_valves 300 1) sample_str b64decode False sample_messages
         (Response 422 ''Invalid input'' JNull) always_processing
       = Some (Api_error 422 ''Invalid input'',
               start_trace False b64decode (extract_images_from_messages sample_messages 3))
   \<and> length (filter is_post
         (start_trace False b64decode (extract_images_from_messages sample_messages 3))) = 1"
proof -
  let ?h = "\<lparr>prediction_id = JStr ''p1'',
           prediction_url = JStr ''https://api.replicate.com/v1/predictions/p1''\<rparr>"
  let ?res = "[(''id'', JStr ''p1''), (''status'', JStr ''starting''),
           (''urls'', JDict [(''get'', JStr ''https://api.replicate.com/v1/predictions/p1'')])]"
  note a = submit_handle_or_error [of sample_str sample_created ?h ?res _ 422 "''Invalid input''"
      JNull "sample_valves 300 1" sample_messages b64decode False always_processing]
  have 1: "truthy (prediction_url ?h)"
    using a [THEN conjunct1] sample_submit by simp
  have 3: "submit sample_str (Response 422 ''Invalid input'' JNull)
       = Inl (Return (Api_error 422 ''Invalid input''))"
    using a [THEN conjunct2, THEN conjunct2, THEN conjunct1] by simp
  have 4: "edit_image (sample_valves 300 1) sample_str b64decode False sample_messages
         (Response 422 ''Invalid input'' JNull) always_processing
       = Some (Api_error 422 ''Invalid input'',
               start_trace False b64decode (extract_images_from_messages sample_messages 3))
   \<and> length (filter is_post
         (start_trace False b64decode (extract_images_from_messages sample_messages 3))) = 1"
    using a [THEN conjunct2, THEN conjunct2, THEN conjunct2] by (simp add: sample_images)
  have 2: "submit sample_str (Raises ''Cannot connect to host'')
       = Inl (Raise (ClientError ''Cannot connect to host''))"
    by (simp add: submit_def)
  from 1 2 3 4 sample_submit show ?thesis
    by (simp add: sample_images)
qed

theorem submit_handle_or_error_counterexample:
  "submit sample_str created_without_id =
     Inr (\<lparr>prediction_id = JNull,
           prediction_url = JStr ''https://api.replicate.com/v1/predictions/None''\<rparr>,
          [(''status'', JStr ''starting'')])
   \<and> \<not> truthy JNull"
  by (simp add: submit_def created_without_id_def dget_def dget_default_def)

section \<open>The artifact\<close>

text \<open>
  C3. For a succeeded job, an \<open>output\<close> that is one URL string and an \<open>output\<close> that is
  a list holding that one string give the same outcome, whose only artifact is that URL.
  From a longer list the outcome keeps the first element and drops the others.
\<close>

theorem first_artifact_kept:
  "(dget res ''output'' = JStr u \<and> u \<noteq> [] \<longrightarrow>
      handle_result (JStr ''succeeded'') res = Image_ready (JStr u))
   \<and> (dget res ''output'' = JList (x # xs) \<longrightarrow>
      handle_result (JStr ''succeeded'') res = Image_ready x
      \<and> artifacts (handle_result (JStr ''succeeded'') res) = [x])
   \<and> (u \<noteq> [] \<longrightarrow>
      artifacts (handle_result (JStr ''succeeded'') [(''output'', JStr u)]) = [JStr u]
      \<and> artifacts (handle_result (JStr ''succeeded'') [(''output'', JList [JStr u])]) = [JStr u])"
  by (simp add: handle_result_def dget_def dget_default_def)

theorem first_artifact_kept_witness:
  "dget [(''status'', JStr ''succeeded''), (''output'', JStr ''https://x/a.png'')] ''output''
     = JStr ''https://x/a.png''
   \<and> ''https://x/a.png'' \<noteq> []
   \<and> handle_result (JStr ''succeeded'')
        [(''status'', JStr ''succeeded''), (''output'', JStr ''https://x/a.png'')]
     = Image_ready (JStr ''https://x/a.png'')
   \<and> dget [(''status'', JStr ''succeeded''), (''output'', JList [JStr ''https://x/a.png''])] ''output''
     = JList [JStr ''https://x/a.png'']
   \<and> handle_result (JStr ''succeeded'')
        [(''status'', JStr ''succeeded''), (''output'', JList [JStr ''https://x/a.png''])]
     = Image_ready (JStr ''https://x/a.png'')
   \<and> artifacts (handle_result (JStr ''succeeded'') [(''output'', JStr ''https://x/a.png'')])
     = [JStr ''https://x/a.png'']
   \<and> artifacts (handle_result (JStr ''succeeded'') [(''output'', JList [JStr ''https://x/a.png''])])
     = [JStr ''https://x/a.png'']"
  using first_artifact_kept [of "[(''status'', JStr ''succeeded''), (''output'', JStr ''https://x/a.png'')]"
      "''https://x/a.png''"]
    first_artifact_kept [of "[(''status'', JStr ''succeeded''), (''output'', JList [JStr ''https://x/a.png''])]"
      "''https://x/a.png''" "JStr ''https://x/a.png''" "[]"]
  by (simp add: dget_def dget_default_def)

theorem first_artifact_kept_counterexample:
  "artifacts (handle_result (JStr ''succeeded'')
      [(''status'', JStr ''succeeded''),
       (''output'', JList [JStr ''https://x/a.png'', JStr ''https://x/b.png''])])
     = [JStr ''https://x/a.png'']
   \<and> [JStr ''https://x/a.png''] \<noteq> [JStr ''https://x/a.png'', JStr ''https://x/b.png'']
   \<and> edit_image (sample_valves 300 1) sample_str b64decode False sample_messages sample_created
        (succeeding_job (JList [JStr ''https://x/a.png'', JStr ''https://x/b.png'']))
     = Some (Image_ready (JStr ''https://x/a.png''),
             [Post [(''image'', ''data:image/png;base64,iVBORw0KGgoAAAANSUhEUgAAAAEAAAABCAYAAAA=''),
                    (''image_2'', ''https://x/b.png''),
                    (''image_3'', ''data:image/jpeg;base64,/9j/4AAQSkZJRgABAQAAAQABAAD/2wBDAAg='')],
              Sleep 1, Get (JStr ''https://api.replicate.com/v1/predictions/p1''),
              Sleep 1, Get (JStr ''https://api.replicate.com/v1/predictions/p1''),
              Sleep 1, Get (JStr ''https://api.replicate.com/v1/predictions/p1'')])"
proof -
  have "edit_image (sample_valves 300 1) sample_str b64decode False sample_messages sample_created
        (succeeding_job (JList [JStr ''https://x/a.png'', JStr ''https://x/b.png'']))
     = Some (Image_ready (JStr ''https://x/a.png''),
             [Post [(''image'', ''data:image/png;base64,iVBORw0KGgoAAAANSUhEUgAAAAEAAAABCAYAAAA=''),
                    (''image_2'', ''https://x/b.png''),
                    (''image_3'', ''data:image/jpeg;base64,/9j/4AAQSkZJRgABAQAAAQABAAD/2wBDAAg='')],
              Sleep 1, Get (JStr ''https://api.replicate.com/v1/predictions/p1''),
              Sleep 1, Get (JStr ''https://api.replicate.com/v1/predictions/p1''),
              Sleep 1, Get (JStr ''https://api.replicate.com/v1/predictions/p1'')])"
    using edit_image_polls [of "sample_valves 300 1" sample_messages sample_str sample_created _ _
      b64decode False "succeeding_job (JList [JStr ''https://x/a.png'', JStr ''https://x/b.png''])",
      OF _ _ sample_submit]
    by (simp add: sample_images poll_loop.simps start_state_def start_trace_def
      dget_def dget_default_def terminal_def poll_once_def succeeding_job_def status_reply_def
      handle_result_def image_keys_def image_slot_def detect_image_mime_def b64_eval)
  then show ?thesis
    by (simp add: handle_result_def dget_def dget_default_def)
qed

section \<open>What an outcome holds\<close>







lemmas run_eval = poll_loop.simps start_state_def start_trace_def dget_def dget_default_def
  terminal_def poll_once_def status_reply_def handle_result_def image_keys_def image_slot_def
  detect_image_mime_def except_handler_def b64_eval



lemma sample_canceled:
  "edit_image (sample_valves 300 1) sample_str b64decode False sample_messages sample_created
        canceled_job
     = Some (Generation_canceled,
             [Post [(''image'', ''data:image/png;base64,iVBORw0KGgoAAAANSUhEUgAAAAEAAAABCAYAAAA=''),
                    (''image_2'', ''https://x/b.png''),
                    (''image_3'', ''data:image/jpeg;base64,/9j/4AAQSkZJRgABAQAAAQABAAD/2wBDAAg='')],
              Sleep 1, Get (JStr ''https://api.replicate.com/v1/predictions/p1'')])"
  using edit_image_polls [of "sample_valves 300 1" sample_messages sample_str sample_created _ _
      b64decode False canceled_job, OF _ _ sample_submit]
  by (simp add: sample_images run_eval canceled_job_def)



section \<open>Failed and canceled jobs\<close>

lemma poll_once_ok:
  assumes "answer = Response 200 text (JDict d)"
  shows "fst (poll_once v emitter url answer s) = None"
    and "status (snd (poll_once v emitter url answer s)) = dget d ''status''"
    and "result (snd (poll_once v emitter url answer s)) = d"
  using assms by (simp_all add: poll_once_def Let_def)

text \<open>
  C8. When the provider reports \<open>failed\<close>, the outcome is the failure message and it
  quotes the provider's \<open>error\<close> value unchanged (\<open>Unknown error\<close> when the result has
  none): a creation answer without a terminal state followed by a status check answering
  \<open>failed\<close> with the error \<open>bad input\<close> gives the failure message quoting \<open>bad input\<close>.
  When the provider reports \<open>canceled\<close>, the outcome is the fixed cancellation message,
  which quotes nothing from the provider.
\<close>

theorem failed_error_surfaced:
  "handle_result (JStr ''failed'') res
     = Generation_failed (dget_default res ''error'' (JStr ''Unknown error''))
   \<and> (map_of res ''error'' = Some e \<longrightarrow>
        provider_error (handle_result (JStr ''failed'') res) = Some e)
   \<and> handle_result (JStr ''canceled'') res = Generation_canceled
   \<and> (replicate_api_token v \<noteq> [] \<and> extract_images_from_messages messages 3 \<noteq> []
        \<and> submit str create = Inr (h, res0) \<and> \<not> terminal (dget res0 ''status'')
        \<and> 0 < max_wait_time v
        \<and> answers 0 = Response 200 text (JDict d) \<and> dget d ''status'' = JStr ''failed''
        \<and> map_of d ''error'' = Some e \<longrightarrow>
      (\<exists>tr. edit_image v str dec emitter messages create answers
               = Some (Generation_failed e, tr)))"
proof -
  have 1: "handle_result (JStr ''failed'') res
     = Generation_failed (dget_default res ''error'' (JStr ''Unknown error''))"
    by (simp add: handle_result_def)
  have 2: "map_of res ''error'' = Some e \<longrightarrow>
        provider_error (handle_result (JStr ''failed'') res) = Some e"
    by (simp add: handle_result_def dget_default_def)
  have 3: "handle_result (JStr ''canceled'') res = Generation_canceled"
    by (simp add: handle_result_def)
  have 4: "replicate_api_token v \<noteq> [] \<and> extract_images_from_messages messages 3 \<noteq> []
        \<and> submit str create = Inr (h, res0) \<and> \<not> terminal (dget res0 ''status'')
        \<and> 0 < max_wait_time v
        \<and> answers 0 = Response 200 text (JDict d) \<and> dget d ''status'' = JStr ''failed''
        \<and> map_of d ''error'' = Some e \<longrightarrow>
      (\<exists>tr. edit_image v str dec emitter messages create answers
               = Some (Generation_failed e, tr))"
  proof
    assume a: "replicate_api_token v \<noteq> [] \<and> extract_images_from_messages messages 3 \<noteq> []
        \<and> submit str create = Inr (h, res0) \<and> \<not> terminal (dget res0 ''status'')
        \<and> 0 < max_wait_time v
        \<and> answers 0 = Response 200 text (JDict d) \<and> dget d ''status'' = JStr ''failed''
        \<and> map_of d ''error'' = Some e"
    let ?s0 = "start_state res0 (start_trace emitter dec (extract_images_from_messages messages 3))"
    let ?s1 = "snd (poll_once v emitter (prediction_url h) (answers 0) ?s0)"
    from a have ans: "answers 0 = Response 200 text (JDict d)" by simp
    note po = poll_once_ok [OF ans, of v emitter "prediction_url h" ?s0]
    from a have d: "elapsed ?s0 < of_int (max_wait_time v)" "\<not> terminal (status ?s0)" "polls ?s0 = 0"
      by (simp_all add: start_state_def)
    have "poll_loop v emitter (prediction_url h) answers ?s0
        = poll_loop v emitter (prediction_url h) answers ?s1"
      using d po(1) by (subst poll_loop.simps) (simp add: split_beta)
    also have "\<dots> = Some (Terminal, ?s1)"
      using po(2) a by (subst poll_loop.simps) (simp add: terminal_def)
    finally have "edit_image v str dec emitter messages create answers
        = Some (handle_result (status ?s1) (result ?s1), trace ?s1)"
      using a po(2,3) edit_image_polls [of v messages str create h res0 dec emitter answers]
      by (simp add: handle_result_def)
    with a po(2,3) show "\<exists>tr. edit_image v str dec emitter messages create answers
               = Some (Generation_failed e, tr)"
      by (simp add: handle_result_def dget_default_def)
  qed
  from 1 2 3 4 show ?thesis by (intro conjI) assumption+
qed

theorem failed_error_surfaced_witness:
  "handle_result (JStr ''failed'')
      [(''id'', JStr ''p1''), (''status'', JStr ''failed''), (''error'', JStr ''bad input'')]
     = Generation_failed (JStr ''bad input'')
   \<and> provider_error (handle_result (JStr ''failed'')
        [(''id'', JStr ''p1''), (''status'', JStr ''failed''), (''error'', JStr ''bad input'')])
     = Some (JStr ''bad input'')
   \<and> replicate_api_token (sample_valves 300 1) \<noteq> []
   \<and> extract_images_from_messages sample_messages 3 \<noteq> []
   \<and> 0 < max_wait_time (sample_valves 300 1)
   \<and> failed_job 0 = Response 200 []
        (JDict [(''id'', JStr ''p1''), (''status'', JStr ''failed''), (''error'', JStr ''bad input'')])
   \<and> (\<exists>tr. edit_image (sample_valves 300 1) sample_str b64decode False sample_messages
              sample_created failed_job
            = Some (Generation_failed (JStr ''bad input''), tr))"
proof -
  let ?d = "[(''id'', JStr ''p1''), (''status'', JStr ''failed''), (''error'', JStr ''bad input'')]"
  let ?res0 = "[(''id'', JStr ''p1''), (''status'', JStr ''starting''),
           (''urls'', JDict [(''get'', JStr ''https://api.replicate.com/v1/predictions/p1'')])]"
  note a = failed_error_surfaced [of ?d "JStr ''bad input''" "sample_valves 300 1" sample_messages
      sample_str sample_created _ ?res0 failed_job "[]" ?d b64decode False]
  have pre: "replicate_api_token (sample_valves 300 1) \<noteq> []"
    "extract_images_from_messages sample_messages 3 \<noteq> []"
    "0 < max_wait_time (sample_valves 300 1)"
    "failed_job 0 = Response 200 [] (JDict ?d)"
    "\<not> terminal (dget ?res0 ''status'')" "dget ?d ''status'' = JStr ''failed''"
    "map_of ?d ''error'' = Some (JStr ''bad input'')"
    by (simp_all add: sample_images failed_job_def dget_def dget_default_def terminal_def)
  from a [THEN conjunct2, THEN conjunct2, THEN conjunct2] pre sample_submit
  have "\<exists>tr. edit_image (sample_valves 300 1) sample_str b64decode False sample_messages
              sample_created failed_job
            = Some (Generation_failed (JStr ''bad input''), tr)"
    by simp
  with a [THEN conjunct1] a [THEN conjunct2, THEN conjunct1] pre show ?thesis
    by (simp add: dget_default_def)
qed

theorem failed_error_surfaced_counterexample:
  "handle_result (JStr ''canceled'')
      [(''id'', JStr ''p1''), (''status'', JStr ''canceled''), (''error'', JStr ''Canceled by user'')]
     = Generation_canceled
   \<and> provider_error Generation_canceled = None
   \<and> edit_image (sample_valves 300 1) sample_str b64decode False sample_messages sample_created
        canceled_job
     = Some (Generation_canceled,
             [Post [(''image'', ''data:image/png;base64,iVBORw0KGgoAAAANSUhEUgAAAAEAAAABCAYAAAA=''),
                    (''image_2'', ''https://x/b.png''),
                    (''image_3'', ''data:image/jpeg;base64,/9j/4AAQSkZJRgABAQAAAQABAAD/2wBDAAg='')],
              Sleep 1, Get (JStr ''https://api.replicate.com/v1/predictions/p1'')])"
  using sample_canceled by (simp add: handle_result_def)

end
